theory Spec2Isabelle
  imports Main "HOL-Library.Word"
begin

section \<open>Conditional UTXO transactions (src/tx/coinutxotx.cpp)\<close>

text \<open>
  A shallow embedding of \<^verbatim>\<open>GetUtxoTxFromChain\<close>, \<^verbatim>\<open>CheckUtxoCondition\<close>,
  \<^verbatim>\<open>CCoinUtxoTx::CheckTx\<close> and \<^verbatim>\<open>CCoinUtxoTx::ExecuteTx\<close>.
  Amounts are \<^verbatim>\<open>uint64_t\<close> and wrap around; the balance difference of
  \<^verbatim>\<open>ExecuteTx\<close> is a 32-bit \<^verbatim>\<open>int\<close>. Heights and output positions are
  natural numbers. Every \<^verbatim>\<open>return\<close>, every exception and every read through a
  pointer or an index is a branch of the model; arguments and loop variables taken by
  value are copies.
\<close>

subsection \<open>Data\<close>

type_synonym uint64_t = "64 word"
type_synonym uint256 = "256 word"
type_synonym TxID = uint256
type_synonym TokenSymbol = string

text \<open>
  \<^verbatim>\<open>CUserID\<close> is declared outside the file. The file uses its default value
  (\<^verbatim>\<open>CUserID()\<close>, for which \<^verbatim>\<open>IsEmpty()\<close> holds), its equality, and the
  alternative \<^verbatim>\<open>CPubKey\<close>.
\<close>

datatype CUserID = CNullID | CRegID nat nat | CKeyID string | CPubKey string

definition IsEmpty :: "CUserID \<Rightarrow> bool" where
  "IsEmpty uid = (uid = CNullID)"

datatype UtxoCondType = P2SA | P2MA | P2PH | CLAIM_LOCK | RECLAIM_LOCK | OtherCondType nat

text \<open>
  What a reference \<^verbatim>\<open>CUtxoCond &\<close> can refer to: an object of one of the classes the
  file casts to, or an object that carries only the \<^verbatim>\<open>cond_type\<close> tag, as an object of
  the base class \<^verbatim>\<open>CUtxoCond\<close> itself does. The tag of the six named classes is fixed by
  the class.
\<close>

datatype CUtxoCond =
    CSingleAddressCondOut CUserID
  | CMultiSignAddressCondOut CUserID
  | CPasswordHashLockCondOut uint256
  | CPasswordHashLockCondIn string
  | CClaimLockCondOut nat
  | CReClaimLockCondOut nat
  | CUtxoCondOther UtxoCondType

fun cond_type :: "CUtxoCond \<Rightarrow> UtxoCondType" where
  "cond_type (CSingleAddressCondOut uid) = P2SA"
| "cond_type (CMultiSignAddressCondOut uid) = P2MA"
| "cond_type (CPasswordHashLockCondOut password_hash) = P2PH"
| "cond_type (CPasswordHashLockCondIn password) = P2PH"
| "cond_type (CClaimLockCondOut height) = CLAIM_LOCK"
| "cond_type (CReClaimLockCondOut height) = RECLAIM_LOCK"
| "cond_type (CUtxoCondOther t) = t"

text \<open>
  Lines 77, 194 and 206 iterate with \<^verbatim>\<open>for (auto cond : ...)\<close>: the loop variable is a
  copy of the element, and the class of the copy is the element type of the vector. The
  header that declares the vectors is not among the sources; the loops read
  \<^verbatim>\<open>cond.cond_type\<close> of the copy and bind it to \<^verbatim>\<open>CUtxoCond &\<close>, so the element type
  is taken to be the base class \<^verbatim>\<open>CUtxoCond\<close>. The copy keeps the tag and has none of
  the members of a derived class.
\<close>

definition copy_cond :: "CUtxoCond \<Rightarrow> CUtxoCond" where
  "copy_cond cond = CUtxoCondOther (cond_type cond)"

record CUtxoInput =
  prev_utxo_txid :: TxID
  prev_utxo_out_index :: nat
  conds :: "CUtxoCond list"

text \<open>The conditions of an output are the field \<^verbatim>\<open>conds\<close> of \<^verbatim>\<open>CUtxoOutput\<close>.\<close>

record CUtxoOutput =
  coin_amount :: uint64_t
  out_conds :: "CUtxoCond list"

record CCoinUtxoTx =
  txUid :: CUserID
  coin_symbol :: TokenSymbol
  fee_symbol :: TokenSymbol
  llFees :: uint64_t
  vins :: "CUtxoInput list"
  vouts :: "CUtxoOutput list"
  memo :: string
  utxo_to_uid :: CUserID
  utxo_coin_symbol :: TokenSymbol

subsection \<open>Validation state\<close>

datatype reject_code =
  REJECT_INVALID | READ_ACCOUNT_FAIL | UPDATE_ACCOUNT_FAIL | OtherRejectCode nat

text \<open>
  \<^verbatim>\<open>CValidationState\<close> is declared outside the file. The state holds the reject code
  and reason of the last call of \<^verbatim>\<open>DoS\<close>, if any. Every call in the file has the
  form \<^verbatim>\<open>state.DoS(100, ERRORMSG(...), code, reason)\<close>; \<^verbatim>\<open>ERRORMSG\<close> logs and yields
  \<^verbatim>\<open>false\<close>, which \<^verbatim>\<open>DoS\<close> hands back.
\<close>

type_synonym CValidationState = "(reject_code \<times> string) option"

definition DoS :: "CValidationState \<Rightarrow> reject_code \<Rightarrow> string \<Rightarrow> bool \<times> CValidationState" where
  "DoS state chRejectCode strRejectReason = (False, Some (chRejectCode, strRejectReason))"

subsection \<open>Collaborators outside the file\<close>

record CAccount =
  owner_pubkey :: string
  free_amount :: "TokenSymbol \<Rightarrow> uint64_t"

type_synonym CDiskTxPos = nat

text \<open>
  Functions, macros and settings the file calls but does not define are parameters.
  A macro or check that can leave the caller with a rejection yields the code and reason
  of that rejection, or \<open>None\<close> when it lets the caller go on.
\<close>

record env =
  IsTxIndex :: bool
  ReadTxIndex :: "TxID \<Rightarrow> CDiskTxPos option"
  ReadBlockFile :: "CDiskTxPos \<Rightarrow> CCoinUtxoTx option"
  Hash :: "string \<Rightarrow> uint256"
  UidToString :: "CUserID \<Rightarrow> string"
  GetHash :: "CCoinUtxoTx \<Rightarrow> TxID"
  DisableTxPreStableCoinRelease :: "CCoinUtxoTx \<Rightarrow> nat \<Rightarrow> (reject_code \<times> string) option"
  CheckTxMemo :: "CCoinUtxoTx \<Rightarrow> (reject_code \<times> string) option"
  CheckTxRegidOrPubkey :: "CUserID \<Rightarrow> (reject_code \<times> string) option"
  CheckFee :: "CCoinUtxoTx \<Rightarrow> nat \<Rightarrow> (reject_code \<times> string) option"
  IsFullyValid :: "string \<Rightarrow> bool"
  GetTxMinFee :: "nat \<Rightarrow> TokenSymbol \<Rightarrow> uint64_t option"
  CheckTxSignature :: "CCoinUtxoTx \<Rightarrow> string \<Rightarrow> (reject_code \<times> string) option"
  GenerateRegID :: "nat \<Rightarrow> CUserID \<Rightarrow> CAccount \<Rightarrow> (reject_code \<times> string) + CAccount"
  SetUtxoTxOk :: "TxID \<times> nat \<Rightarrow> bool"
  DelUtoxTxOk :: "TxID \<times> nat \<Rightarrow> bool"
  SaveAccountOk :: "CAccount \<Rightarrow> bool"
  SetTxReceiptsOk :: "TxID \<Rightarrow> bool"

subsection \<open>CheckUtxoCondition\<close>

text \<open>
  How a call of \<^verbatim>\<open>CheckUtxoCondition\<close> ends: at a \<^verbatim>\<open>return\<close> statement, with the
  value returned and the validation state; at the closing brace of the function, having left
  the \<^verbatim>\<open>switch\<close> through a \<^verbatim>\<open>break\<close> (no value is returned); or with the
  \<^verbatim>\<open>std::bad_cast\<close> of a \<^verbatim>\<open>dynamic_cast\<close> to a reference of a class the object
  does not have.
\<close>

datatype cond_exit =
    Returned bool CValidationState
  | FlowsOffEnd CValidationState
  | ThrowsBadCast

text \<open>\<^verbatim>\<open>return state.DoS(100, ERRORMSG(...), REJECT_INVALID, reason)\<close>.\<close>

definition reject_cond :: "CValidationState \<Rightarrow> string \<Rightarrow> cond_exit" where
  "reject_cond state reason =
     (case DoS state REJECT_INVALID reason of (r, state') \<Rightarrow> Returned r state')"

text \<open>
  The loop over \<^verbatim>\<open>input.conds\<close> of the \<^verbatim>\<open>P2PH\<close> input case (lines 77 to 89):
  \<open>Inl\<close> is an exit from inside the loop, \<open>Inr found\<close> the flag at the end of the loop.
  The loop variable \<open>cond\<close> is the copy of the element \<open>c\<close>.
\<close>

fun scan_input_conds ::
  "env \<Rightarrow> CValidationState \<Rightarrow> uint256 \<Rightarrow> CUserID \<Rightarrow> CUtxoCond list \<Rightarrow> bool \<Rightarrow> cond_exit + bool" where
  "scan_input_conds e state password_hash uid [] found = Inr found"
| "scan_input_conds e state password_hash uid (c # cs) found =
     (let cond = copy_cond c in
      if cond_type cond = P2PH then
        (case cond of
           CPasswordHashLockCondIn password \<Rightarrow>
             (if password_hash \<noteq> Hash e (password @ UidToString e uid)
              then Inl (reject_cond state ''secret-mismatches-err'')
              else scan_input_conds e state password_hash uid cs True)
         | _ \<Rightarrow> Inl ThrowsBadCast)
      else scan_input_conds e state password_hash uid cs found)"

definition CheckUtxoCondition ::
  "env \<Rightarrow> bool \<Rightarrow> nat \<Rightarrow> CValidationState \<Rightarrow> CUserID \<Rightarrow> CUserID \<Rightarrow> CUtxoInput \<Rightarrow> CUtxoCond
     \<Rightarrow> cond_exit" where
  "CheckUtxoCondition e isCheckInput height state prevUtxoTxUid uid input cond =
     (case cond_type cond of
        P2SA \<Rightarrow>
          (case cond of
             CSingleAddressCondOut theUid \<Rightarrow>
               (if isCheckInput then
                  (if theUid \<noteq> uid then reject_cond state ''uid-mismatches-err''
                   else FlowsOffEnd state)
                else
                  (if IsEmpty theUid then reject_cond state ''uid-empty-err''
                   else FlowsOffEnd state))
           | _ \<Rightarrow> ThrowsBadCast)
      | P2MA \<Rightarrow>
          (case cond of
             CMultiSignAddressCondOut theUid \<Rightarrow>
               (if isCheckInput then FlowsOffEnd state
                else
                  (if IsEmpty theUid then reject_cond state ''uid-empty-err''
                   else FlowsOffEnd state))
           | _ \<Rightarrow> ThrowsBadCast)
      | P2PH \<Rightarrow>
          (case cond of
             CPasswordHashLockCondOut password_hash \<Rightarrow>
               (if isCheckInput then
                  (case scan_input_conds e state password_hash uid (conds input) False of
                     Inl ex \<Rightarrow> ex
                   | Inr found \<Rightarrow>
                       (if \<not> found then reject_cond state ''cond-mismatches-err''
                        else FlowsOffEnd state))
                else
                  (if password_hash = 0 then reject_cond state ''empty-hash-lock-err''
                   else FlowsOffEnd state))
           | _ \<Rightarrow> ThrowsBadCast)
      | CLAIM_LOCK \<Rightarrow>
          (case cond of
             CClaimLockCondOut theHeight \<Rightarrow>
               (if isCheckInput then
                  (if height \<le> theHeight then reject_cond state ''too-early-to-claim-err''
                   else FlowsOffEnd state)
                else
                  (if theHeight = 0 then reject_cond state ''claim-lock-empty-err''
                   else FlowsOffEnd state))
           | _ \<Rightarrow> ThrowsBadCast)
      | RECLAIM_LOCK \<Rightarrow>
          (case cond of
             CReClaimLockCondOut theHeight \<Rightarrow>
               (if isCheckInput then
                  (if prevUtxoTxUid = uid then
                     (if theHeight = 0 \<or> height \<le> theHeight
                      then reject_cond state ''too-early-to-claim-err''
                      else FlowsOffEnd state)
                   else FlowsOffEnd state)
                else
                  (if theHeight = 0 then reject_cond state ''reclaim-lock-empty-err''
                   else FlowsOffEnd state))
           | _ \<Rightarrow> ThrowsBadCast)
      | OtherCondType t \<Rightarrow> reject_cond state ''cond-type-err'')"

subsection \<open>Control flow of the two pipelines\<close>

text \<open>
  What ends a run other than a \<^verbatim>\<open>return\<close>: a read through a null
  \<^verbatim>\<open>shared_ptr\<close>, a vector index past the end, an escaping \<^verbatim>\<open>std::bad_cast\<close>,
  the \<^verbatim>\<open>runtime_error\<close> of \<^verbatim>\<open>GetUtxoTxFromChain\<close>, a failed \<^verbatim>\<open>assert\<close>.
\<close>

datatype fault = NullPointer | OutOfRange | BadCast | RuntimeError | AssertFailed

text \<open>
  A piece of a function body either stops with a fault, returns from the function with
  a result, or hands its local values to the statement after it.
\<close>

datatype ('r, 'a) flow = Fault fault | Return 'r | Next 'a

subsection \<open>GetUtxoTxFromChain\<close>

text \<open>
  Line 12 declares the parameter \<^verbatim>\<open>std::shared_ptr<CCoinUtxoTx> pTx\<close> by value: the
  function works on its own copy of the caller's pointer, and what line 25 reads into
  that copy is gone when the function returns. The caller gets the \<^verbatim>\<open>bool\<close>, or the
  \<^verbatim>\<open>runtime_error\<close> of line 28, and its own pointer is as it was before the call.
  \<^verbatim>\<open>ReadBlockFile\<close> stands for lines 19 to 25, and is \<open>None\<close> when they throw.
\<close>

definition GetUtxoTxFromChain :: "env \<Rightarrow> TxID \<Rightarrow> CCoinUtxoTx option \<Rightarrow> fault + bool" where
  "GetUtxoTxFromChain e txid pTx =
     (if \<not> IsTxIndex e then Inr False
      else
        (case ReadTxIndex e txid of
           Some txPos \<Rightarrow>
             (case ReadBlockFile e txPos of
                None \<Rightarrow> Inl RuntimeError
              | Some tx \<Rightarrow> Inr True)
         | None \<Rightarrow> Inr True))"

subsection \<open>Ledger caches\<close>

datatype ReceiptCode = TRANSFER_UTXO_COINS

datatype CReceipt = CReceipt CUserID CUserID TokenSymbol uint64_t ReceiptCode

record CCacheWrapper =
  accountCache :: "CUserID \<rightharpoonup> CAccount"
  txUtxoCache :: "(TxID \<times> nat) set"
  txReceiptCache :: "TxID \<rightharpoonup> CReceipt list"

text \<open>
  Modelled from the spec: the classes behind \<^verbatim>\<open>cw.accountCache\<close>,
  \<^verbatim>\<open>cw.txUtxoCache\<close>, \<^verbatim>\<open>cw.txReceiptCache\<close> and \<^verbatim>\<open>CAccount\<close> are missing from the
  sources at hand. Section 6 of the specification gives their contracts:
  \<^verbatim>\<open>getAccount(identity)\<close> yields the account or NotFound; \<^verbatim>\<open>saveAccount\<close>,
  \<^verbatim>\<open>insert(key)\<close>, \<^verbatim>\<open>remove(key)\<close> and \<^verbatim>\<open>append\<close> yield Ok or Err;
  \<^verbatim>\<open>contains(key)\<close> tells whether the key is unspent; an account exposes its free
  balance per symbol and an adjustment of it. Whether a write reports Err is a parameter;
  a write that reports Err changes nothing. An account is saved under the identity it
  was loaded by.
\<close>

definition GetAccount :: "CCacheWrapper \<Rightarrow> CUserID \<Rightarrow> CAccount option" where
  "GetAccount cw uid = accountCache cw uid"

definition SaveAccount :: "env \<Rightarrow> CCacheWrapper \<Rightarrow> CUserID \<Rightarrow> CAccount \<Rightarrow> CCacheWrapper option" where
  "SaveAccount e cw uid account =
     (if SaveAccountOk e account
      then Some (cw\<lparr>accountCache := (accountCache cw)(uid \<mapsto> account)\<rparr>)
      else None)"

text \<open>Modelled from the spec: the UTXO Index, \<^verbatim>\<open>contains(key)\<close>, \<^verbatim>\<open>insert(key)\<close>
  and \<^verbatim>\<open>remove(key)\<close> on the set of unspent keys.\<close>

definition GetUtxoTx :: "CCacheWrapper \<Rightarrow> TxID \<times> nat \<Rightarrow> bool" where
  "GetUtxoTx cw utxoKey = (utxoKey \<in> txUtxoCache cw)"

definition SetUtxoTx :: "env \<Rightarrow> CCacheWrapper \<Rightarrow> TxID \<times> nat \<Rightarrow> CCacheWrapper option" where
  "SetUtxoTx e cw utxoKey =
     (if SetUtxoTxOk e utxoKey
      then Some (cw\<lparr>txUtxoCache := insert utxoKey (txUtxoCache cw)\<rparr>)
      else None)"

definition DelUtoxTx :: "env \<Rightarrow> CCacheWrapper \<Rightarrow> TxID \<times> nat \<Rightarrow> CCacheWrapper option" where
  "DelUtoxTx e cw utxoKey =
     (if DelUtoxTxOk e utxoKey
      then Some (cw\<lparr>txUtxoCache := txUtxoCache cw - {utxoKey}\<rparr>)
      else None)"

text \<open>Modelled from the spec: the Receipt Store, \<^verbatim>\<open>append(transactionId, receipts)\<close>.\<close>

definition SetTxReceipts ::
  "env \<Rightarrow> CCacheWrapper \<Rightarrow> TxID \<Rightarrow> CReceipt list \<Rightarrow> CCacheWrapper option" where
  "SetTxReceipts e cw txid receipts =
     (if SetTxReceiptsOk e txid
      then Some (cw\<lparr>txReceiptCache := (txReceiptCache cw)(txid \<mapsto> receipts)\<rparr>)
      else None)"

text \<open>Modelled from the spec: the free balance of an account per symbol and its
  adjustment; taking more than the balance holds fails, adding wraps around as
  \<^verbatim>\<open>uint64_t\<close> does.\<close>

datatype BalanceOpType = ADD_FREE | SUB_FREE

definition GetBalance :: "CAccount \<Rightarrow> TokenSymbol \<Rightarrow> uint64_t" where
  "GetBalance account symbol = free_amount account symbol"

fun OperateBalance ::
  "CAccount \<Rightarrow> TokenSymbol \<Rightarrow> BalanceOpType \<Rightarrow> uint64_t \<Rightarrow> CAccount option" where
  "OperateBalance account symbol ADD_FREE v =
     Some (account\<lparr>free_amount := (free_amount account)(symbol := free_amount account symbol + v)\<rparr>)"
| "OperateBalance account symbol SUB_FREE v =
     (if free_amount account symbol < v then None
      else Some (account\<lparr>free_amount :=
                   (free_amount account)(symbol := free_amount account symbol - v)\<rparr>))"

subsection \<open>CCoinUtxoTx::CheckTx\<close>

text \<open>
  Lines 194 to 195 and 206 to 207: \<^verbatim>\<open>CheckUtxoCondition\<close> is called on the copy of
  each condition, as an expression statement. Its value is not read; the loop goes on to
  the next condition with the validation state the call left. Only an exception leaves the
  loop.
\<close>

fun check_conds ::
  "env \<Rightarrow> bool \<Rightarrow> nat \<Rightarrow> CUserID \<Rightarrow> CUserID \<Rightarrow> CUtxoInput \<Rightarrow> CUtxoCond list \<Rightarrow> CValidationState
     \<Rightarrow> fault + CValidationState" where
  "check_conds e isCheckInput height prevUtxoTxUid uid input [] state = Inr state"
| "check_conds e isCheckInput height prevUtxoTxUid uid input (cond # rest) state =
     (case CheckUtxoCondition e isCheckInput height state prevUtxoTxUid uid input
             (copy_cond cond) of
        Returned r state' \<Rightarrow> check_conds e isCheckInput height prevUtxoTxUid uid input rest state'
      | FlowsOffEnd state' \<Rightarrow> check_conds e isCheckInput height prevUtxoTxUid uid input rest state'
      | ThrowsBadCast \<Rightarrow> Inl BadCast)"

text \<open>
  The loop over \<^verbatim>\<open>vins\<close>, lines 181 to 198. \<open>pPrevUtxoTx\<close> is the pointer declared at
  line 183, which is null; the call at line 184 hands over a copy of it, so it is still null
  at line 188.
\<close>

fun CheckTx_vins ::
  "env \<Rightarrow> nat \<Rightarrow> CUserID \<Rightarrow> CUtxoInput list \<Rightarrow> CValidationState \<Rightarrow> uint64_t
     \<Rightarrow> (bool \<times> CValidationState, CValidationState \<times> uint64_t) flow" where
  "CheckTx_vins e height uid [] state totalInAmount = Next (state, totalInAmount)"
| "CheckTx_vins e height uid (input # rest) state totalInAmount =
     (let pPrevUtxoTx = (None :: CCoinUtxoTx option) in
      case GetUtxoTxFromChain e (prev_utxo_txid input) pPrevUtxoTx of
        Inl f \<Rightarrow> Fault f
      | Inr loaded \<Rightarrow>
          (if \<not> loaded then Return (DoS state REJECT_INVALID ''failed-to-load-prev-utxo-err'')
           else
             (case pPrevUtxoTx of
                None \<Rightarrow> Fault NullPointer
              | Some prevUtxoTx \<Rightarrow>
                  (if length (vouts prevUtxoTx) < prev_utxo_out_index input + 1
                   then Return (DoS state REJECT_INVALID ''prev-utxo-index-OOR-err'')
                   else
                     (case check_conds e True height (txUid prevUtxoTx) uid input
                             (out_conds (vouts prevUtxoTx ! prev_utxo_out_index input)) state of
                        Inl f \<Rightarrow> Fault f
                      | Inr state' \<Rightarrow>
                          CheckTx_vins e height uid rest state'
                            (totalInAmount
                               + coin_amount (vouts prevUtxoTx ! prev_utxo_out_index input)))))))"

text \<open>The loop over \<^verbatim>\<open>vouts\<close>, lines 200 to 210; \<^verbatim>\<open>CUserID()\<close> and \<^verbatim>\<open>CUtxoInput()\<close>
  are the default values.\<close>

definition CUtxoInput_default :: CUtxoInput where
  "CUtxoInput_default = \<lparr>prev_utxo_txid = 0, prev_utxo_out_index = 0, conds = []\<rparr>"

fun CheckTx_vouts ::
  "env \<Rightarrow> nat \<Rightarrow> CUserID \<Rightarrow> CUtxoOutput list \<Rightarrow> CValidationState \<Rightarrow> uint64_t
     \<Rightarrow> (bool \<times> CValidationState, CValidationState \<times> uint64_t) flow" where
  "CheckTx_vouts e height uid [] state totalOutAmount = Next (state, totalOutAmount)"
| "CheckTx_vouts e height uid (output # rest) state totalOutAmount =
     (if coin_amount output = 0
      then Return (DoS state REJECT_INVALID ''zero-output-amount-err'')
      else
        (case check_conds e False height CNullID uid CUtxoInput_default (out_conds output) state of
           Inl f \<Rightarrow> Fault f
         | Inr state' \<Rightarrow>
             CheckTx_vouts e height uid rest state' (totalOutAmount + coin_amount output)))"

text \<open>Lines 145 to 158: the macros, the fee check, the public key and the sender account.\<close>

definition CheckTx_pre ::
  "env \<Rightarrow> CCoinUtxoTx \<Rightarrow> nat \<Rightarrow> CCacheWrapper \<Rightarrow> CValidationState
     \<Rightarrow> (bool \<times> CValidationState) + CAccount" where
  "CheckTx_pre e tx height cw state =
     (case DisableTxPreStableCoinRelease e tx height of
        Some (code, reason) \<Rightarrow> Inl (DoS state code reason)
      | None \<Rightarrow>
     (case CheckTxMemo e tx of
        Some (code, reason) \<Rightarrow> Inl (DoS state code reason)
      | None \<Rightarrow>
     (case CheckTxRegidOrPubkey e (txUid tx) of
        Some (code, reason) \<Rightarrow> Inl (DoS state code reason)
      | None \<Rightarrow>
     (case CheckFee e tx height of
        Some (code, reason) \<Rightarrow> Inl (DoS state code reason)
      | None \<Rightarrow>
     (if (case txUid tx of CPubKey key \<Rightarrow> \<not> IsFullyValid e key | _ \<Rightarrow> False)
      then Inl (DoS state REJECT_INVALID ''bad-publickey'')
      else
     (case GetAccount cw (txUid tx) of
        None \<Rightarrow> Inl (DoS state REJECT_INVALID ''bad-getaccount'')
      | Some srcAccount \<Rightarrow> Inr srcAccount))))))"

text \<open>Lines 160 to 170: the reason of the size rejection, if there is one.\<close>

definition CheckTx_sizes :: "CCoinUtxoTx \<Rightarrow> string option" where
  "CheckTx_sizes tx =
     (if length (vins tx) > 100 then Some ''vins-size-too-large''
      else if length (vouts tx) > 100 then Some ''vouts-size-too-large''
      else if length (vins tx) = 0 \<and> length (vouts tx) = 0 then Some ''utxo-empty-err''
      else None)"

definition CheckTx ::
  "env \<Rightarrow> CCoinUtxoTx \<Rightarrow> nat \<Rightarrow> CCacheWrapper \<Rightarrow> CValidationState
     \<Rightarrow> (bool \<times> CValidationState, unit) flow" where
  "CheckTx e tx height cw state =
     (case CheckTx_pre e tx height cw state of
        Inl r \<Rightarrow> Return r
      | Inr srcAccount \<Rightarrow>
     (case CheckTx_sizes tx of
        Some reason \<Rightarrow> Return (DoS state REJECT_INVALID reason)
      | None \<Rightarrow>
     (case GetTxMinFee e height (fee_symbol tx) of
        None \<Rightarrow> Fault AssertFailed
      | Some minFee \<Rightarrow>
     (let minerMinFees = (2 * of_nat (length (vins tx)) + of_nat (length (vouts tx))) * minFee in
      if llFees tx < minerMinFees
      then Return (DoS state REJECT_INVALID ''bad-tx-fee-toosmall'')
      else
     (case CheckTx_vins e height (txUid tx) (vins tx) state 0 of
        Fault f \<Rightarrow> Fault f
      | Return r \<Rightarrow> Return r
      | Next (state1, totalInAmount) \<Rightarrow>
     (case CheckTx_vouts e height (txUid tx) (vouts tx) state1 0 of
        Fault f \<Rightarrow> Fault f
      | Return r \<Rightarrow> Return r
      | Next (state2, totalOutAmount) \<Rightarrow>
     (let accountBalance = GetBalance srcAccount (coin_symbol tx) in
      if accountBalance + totalInAmount < totalOutAmount + llFees tx
      then Return (DoS state2 REJECT_INVALID ''insufficient-account-coin-amount'')
      else
     (let pubKey = (case txUid tx of CPubKey key \<Rightarrow> key | _ \<Rightarrow> owner_pubkey srcAccount) in
      case CheckTxSignature e tx pubKey of
        Some (code, reason) \<Rightarrow> Return (DoS state2 code reason)
      | None \<Rightarrow> Return (True, state2)))))))))"

subsection \<open>CCoinUtxoTx::ExecuteTx\<close>

text \<open>
  A \<^verbatim>\<open>return\<close> of \<^verbatim>\<open>ExecuteTx\<close> hands back the \<^verbatim>\<open>bool\<close>, the validation state
  and the cache wrapper as the writes made so far have left it.
\<close>

type_synonym exec_result = "(bool \<times> CValidationState) \<times> CCacheWrapper"

text \<open>
  The loop over \<^verbatim>\<open>vins\<close>, lines 244 to 260. \<open>pPrevUtxoTx\<close> is the pointer declared at
  line 250, which is null; the call at line 251 hands over a copy of it, so it is still null
  when line 255 reads through it. Line 255 also indexes \<^verbatim>\<open>vouts\<close> unchecked.
\<close>

fun ExecuteTx_vins ::
  "env \<Rightarrow> CUtxoInput list \<Rightarrow> CValidationState \<Rightarrow> CCacheWrapper \<Rightarrow> uint64_t
     \<Rightarrow> (exec_result, CCacheWrapper \<times> uint64_t) flow" where
  "ExecuteTx_vins e [] state cw totalInAmount = Next (cw, totalInAmount)"
| "ExecuteTx_vins e (input # rest) state cw totalInAmount =
     (if \<not> GetUtxoTx cw (prev_utxo_txid input, prev_utxo_out_index input)
      then Return (DoS state REJECT_INVALID ''double-spend-prev-utxo-err'', cw)
      else
        (let pPrevUtxoTx = (None :: CCoinUtxoTx option) in
         case GetUtxoTxFromChain e (prev_utxo_txid input) pPrevUtxoTx of
           Inl f \<Rightarrow> Fault f
         | Inr loaded \<Rightarrow>
             (if \<not> loaded
              then Return (DoS state REJECT_INVALID ''failed-to-load-prev-utxo-err'', cw)
              else
                (case pPrevUtxoTx of
                   None \<Rightarrow> Fault NullPointer
                 | Some prevUtxoTx \<Rightarrow>
                     (if length (vouts prevUtxoTx) \<le> prev_utxo_out_index input
                      then Fault OutOfRange
                      else
                        (case DelUtoxTx e cw (prev_utxo_txid input, prev_utxo_out_index input) of
                           None \<Rightarrow> Return (DoS state REJECT_INVALID ''del-prev-utxo-err'', cw)
                         | Some cw' \<Rightarrow>
                             ExecuteTx_vins e rest state cw'
                               (totalInAmount
                                  + coin_amount (vouts prevUtxoTx ! prev_utxo_out_index input))))))))"

text \<open>The loop over \<^verbatim>\<open>vouts\<close>, lines 262 to 269; \<open>i\<close> is the loop counter and
  \<open>txid\<close> the value of \<^verbatim>\<open>GetHash()\<close>.\<close>

fun ExecuteTx_vouts ::
  "env \<Rightarrow> TxID \<Rightarrow> CUtxoOutput list \<Rightarrow> nat \<Rightarrow> CValidationState \<Rightarrow> CCacheWrapper \<Rightarrow> uint64_t
     \<Rightarrow> (exec_result, CCacheWrapper \<times> uint64_t) flow" where
  "ExecuteTx_vouts e txid [] i state cw totalOutAmount = Next (cw, totalOutAmount)"
| "ExecuteTx_vouts e txid (output # rest) i state cw totalOutAmount =
     (case SetUtxoTx e cw (txid, i) of
        None \<Rightarrow> Return (DoS state REJECT_INVALID ''set-utxo-err'', cw)
      | Some cw' \<Rightarrow>
          ExecuteTx_vouts e txid rest (Suc i) state cw' (totalOutAmount + coin_amount output))"

text \<open>
  Line 276, \<^verbatim>\<open>int diff = totalInAmount - totalOutAmount - llFees\<close>: the subtraction is
  done in \<^verbatim>\<open>uint64_t\<close> and the result converted to the 32-bit \<^verbatim>\<open>int\<close>, which keeps
  the low 32 bits. \<^verbatim>\<open>abs\<close> is the one of \<^verbatim>\<open>int\<close> (negation in two's complement), and
  an \<^verbatim>\<open>int\<close> passed for a \<^verbatim>\<open>uint64_t\<close> amount is sign-extended.
\<close>

definition diff_of :: "uint64_t \<Rightarrow> uint64_t \<Rightarrow> uint64_t \<Rightarrow> 32 word" where
  "diff_of totalInAmount totalOutAmount fees = ucast (totalInAmount - totalOutAmount - fees)"

definition abs_int :: "32 word \<Rightarrow> 32 word" where
  "abs_int d = (if sint d < 0 then - d else d)"

definition int_to_uint64 :: "32 word \<Rightarrow> uint64_t" where
  "int_to_uint64 d = scast d"

text \<open>Lines 276 to 287: the account after the adjustment, or \<open>None\<close> when
  \<^verbatim>\<open>OperateBalance\<close> reports failure.\<close>

definition adjust_account :: "CAccount \<Rightarrow> TokenSymbol \<Rightarrow> 32 word \<Rightarrow> CAccount option" where
  "adjust_account srcAccount symbol diff =
     (if sint diff < 0 then OperateBalance srcAccount symbol SUB_FREE (int_to_uint64 (abs_int diff))
      else if sint diff > 0 then OperateBalance srcAccount symbol ADD_FREE (int_to_uint64 diff)
      else Some srcAccount)"

definition ExecuteTx ::
  "env \<Rightarrow> CCoinUtxoTx \<Rightarrow> nat \<Rightarrow> CCacheWrapper \<Rightarrow> CValidationState \<Rightarrow> (exec_result, unit) flow" where
  "ExecuteTx e tx height cw state =
     (case GetAccount cw (txUid tx) of
        None \<Rightarrow> Return (DoS state READ_ACCOUNT_FAIL ''bad-read-accountdb'', cw)
      | Some account \<Rightarrow>
     (case GenerateRegID e height (txUid tx) account of
        Inl (code, reason) \<Rightarrow> Return (DoS state code reason, cw)
      | Inr srcAccount \<Rightarrow>
     (case ExecuteTx_vins e (vins tx) state cw 0 of
        Fault f \<Rightarrow> Fault f
      | Return r \<Rightarrow> Return r
      | Next (cw1, totalInAmount) \<Rightarrow>
     (case ExecuteTx_vouts e (GetHash e tx) (vouts tx) 0 state cw1 0 of
        Fault f \<Rightarrow> Fault f
      | Return r \<Rightarrow> Return r
      | Next (cw2, totalOutAmount) \<Rightarrow>
     (let accountBalance = GetBalance srcAccount (coin_symbol tx) in
      if accountBalance + totalInAmount < totalOutAmount + llFees tx
      then Return (DoS state REJECT_INVALID ''insufficient-account-coin-amount'', cw2)
      else
     (let diff = diff_of totalInAmount totalOutAmount (llFees tx) in
      case adjust_account srcAccount (coin_symbol tx) diff of
        None \<Rightarrow> Return (DoS state UPDATE_ACCOUNT_FAIL ''insufficient-fund-utxo'', cw2)
      | Some srcAccount' \<Rightarrow>
     (let receipts = [CReceipt (txUid tx) (utxo_to_uid tx) (utxo_coin_symbol tx)
                        (int_to_uint64 (abs_int diff)) TRANSFER_UTXO_COINS] in
      case SaveAccount e cw2 (txUid tx) srcAccount' of
        None \<Rightarrow> Return (DoS state UPDATE_ACCOUNT_FAIL ''bad-read-accountdb'', cw2)
      | Some cw3 \<Rightarrow>
     (if receipts \<noteq> [] then
        (case SetTxReceipts e cw3 (GetHash e tx) receipts of
           None \<Rightarrow> Return (DoS state REJECT_INVALID ''set-tx-receipt-failed'', cw3)
         | Some cw4 \<Rightarrow> Return ((True, state), cw4))
      else Return ((True, state), cw3)))))))))"

subsection \<open>Keys of a transaction\<close>




subsection \<open>The balance equation of the specification\<close>

text \<open>
  Section 8 of the specification, in unbounded integers:
  \<^verbatim>\<open>totalIn + senderFreeBalanceBefore = totalOut + fee + senderFreeBalanceAfter\<close>.
  These definitions follow the specification's words; \<^verbatim>\<open>ExecuteTx\<close> does not use them.
  The amount of an input is the amount of the output it names in the transaction the chain
  store holds under the prior id.
\<close>

definition spec_prior_amount :: "env \<Rightarrow> CUtxoInput \<Rightarrow> nat" where
  "spec_prior_amount e input =
     (case ReadTxIndex e (prev_utxo_txid input) of
        None \<Rightarrow> 0
      | Some txPos \<Rightarrow>
          (case ReadBlockFile e txPos of
             None \<Rightarrow> 0
           | Some prevUtxoTx \<Rightarrow>
               (if prev_utxo_out_index input < length (vouts prevUtxoTx)
                then unat (coin_amount (vouts prevUtxoTx ! prev_utxo_out_index input))
                else 0)))"

definition spec_totalIn :: "env \<Rightarrow> CCoinUtxoTx \<Rightarrow> nat" where
  "spec_totalIn e tx = sum_list (map (spec_prior_amount e) (vins tx))"

definition spec_totalOut :: "CCoinUtxoTx \<Rightarrow> nat" where
  "spec_totalOut tx = sum_list (map (\<lambda>out. unat (coin_amount out)) (vouts tx))"

definition spec_free_balance :: "CCacheWrapper \<Rightarrow> CCoinUtxoTx \<Rightarrow> nat" where
  "spec_free_balance cw tx =
     (case accountCache cw (txUid tx) of
        None \<Rightarrow> 0
      | Some account \<Rightarrow> unat (free_amount account (coin_symbol tx)))"

definition spec_balance_equation ::
  "env \<Rightarrow> CCoinUtxoTx \<Rightarrow> CCacheWrapper \<Rightarrow> CCacheWrapper \<Rightarrow> bool" where
  "spec_balance_equation e tx cw cw' =
     (spec_totalIn e tx + spec_free_balance cw tx
        = spec_totalOut tx + unat (llFees tx) + spec_free_balance cw' tx)"

subsection \<open>A small chain and ledger\<close>

text \<open>
  The chain holds one earlier transaction, with id 3, sent by the account \<open>CRegID 2 1\<close>:
  its output 0 holds 500 units, its output 1 holds 700 units. The transaction index is
  enabled, the minimum unit fee is 1, every external check passes and every write succeeds.
  A transaction without inputs has id 5, any other id 7.
\<close>

definition prior_tx :: CCoinUtxoTx where
  "prior_tx =
     \<lparr>txUid = CRegID 2 1, coin_symbol = ''WICC'', fee_symbol = ''WICC'', llFees = 3,
      vins = [],
      vouts = [\<lparr>coin_amount = 500, out_conds = [CSingleAddressCondOut (CRegID 1 1)]\<rparr>,
               \<lparr>coin_amount = 700, out_conds = [CSingleAddressCondOut (CRegID 2 1)]\<rparr>],
      memo = [], utxo_to_uid = CNullID, utxo_coin_symbol = ''WICC''\<rparr>"

definition env0 :: env where
  "env0 =
     \<lparr>IsTxIndex = True,
      ReadTxIndex = (\<lambda>txid. if txid = 3 then Some 0 else None),
      ReadBlockFile = (\<lambda>txPos. if txPos = 0 then Some prior_tx else None),
      Hash = (\<lambda>text. 0),
      UidToString = (\<lambda>uid. []),
      GetHash = (\<lambda>tx. if vins tx = [] then 5 else 7),
      DisableTxPreStableCoinRelease = (\<lambda>tx height. None),
      CheckTxMemo = (\<lambda>tx. None),
      CheckTxRegidOrPubkey = (\<lambda>uid. None),
      CheckFee = (\<lambda>tx height. None),
      IsFullyValid = (\<lambda>key. True),
      GetTxMinFee = (\<lambda>height symbol. Some 1),
      CheckTxSignature = (\<lambda>tx key. None),
      GenerateRegID = (\<lambda>height uid account. Inr account),
      SetUtxoTxOk = (\<lambda>utxoKey. True),
      DelUtoxTxOk = (\<lambda>utxoKey. True),
      SaveAccountOk = (\<lambda>account. True),
      SetTxReceiptsOk = (\<lambda>txid. True)\<rparr>"

text \<open>The account \<open>CRegID 1 1\<close> with a free balance in WICC, and a ledger that holds
  this account, a set of unspent keys and a receipt store.\<close>

definition account_of :: "uint64_t \<Rightarrow> CAccount" where
  "account_of v = \<lparr>owner_pubkey = ''key'', free_amount = (\<lambda>symbol. 0)(''WICC'' := v)\<rparr>"

definition cw_of :: "uint64_t \<Rightarrow> (TxID \<times> nat) set \<Rightarrow> (TxID \<rightharpoonup> CReceipt list) \<Rightarrow> CCacheWrapper" where
  "cw_of v utxos receipts =
     \<lparr>accountCache = [CRegID 1 1 \<mapsto> account_of v], txUtxoCache = utxos,
      txReceiptCache = receipts\<rparr>"

text \<open>A transaction of the account \<open>CRegID 1 1\<close> in WICC.\<close>

definition tx_of :: "uint64_t \<Rightarrow> CUtxoInput list \<Rightarrow> CUtxoOutput list \<Rightarrow> CCoinUtxoTx" where
  "tx_of fee ins outs =
     \<lparr>txUid = CRegID 1 1, coin_symbol = ''WICC'', fee_symbol = ''WICC'', llFees = fee,
      vins = ins, vouts = outs, memo = [], utxo_to_uid = CNullID,
      utxo_coin_symbol = ''WICC''\<rparr>"

definition spend :: "TxID \<Rightarrow> nat \<Rightarrow> CUtxoInput" where
  "spend txid i = \<lparr>prev_utxo_txid = txid, prev_utxo_out_index = i, conds = []\<rparr>"

definition pay :: "uint64_t \<Rightarrow> CUtxoCond \<Rightarrow> CUtxoOutput" where
  "pay v cond = \<lparr>coin_amount = v, out_conds = [cond]\<rparr>"

text \<open>An output without conditions.\<close>

definition unlocked :: "uint64_t \<Rightarrow> CUtxoOutput" where
  "unlocked v = \<lparr>coin_amount = v, out_conds = []\<rparr>"

text \<open>The scenario of section 8 of the specification: free balance 1000, one input of
  500, outputs of 300 and 100, fee 50.\<close>

definition tx_scenario :: CCoinUtxoTx where
  "tx_scenario = tx_of 50 [spend 3 0] [unlocked 300, unlocked 100]"

text \<open>The same outputs and fee without the input, and the ledger after its execution from
  a free balance of 1000.\<close>

definition tx_outputs_only :: CCoinUtxoTx where
  "tx_outputs_only = tx_of 50 [] [unlocked 300, unlocked 100]"

definition cw_outputs_only_after :: CCacheWrapper where
  "cw_outputs_only_after =
     cw_of 550 {(5, 1), (5, 0)}
       [5 \<mapsto> [CReceipt (CRegID 1 1) CNullID ''WICC'' 450 TRANSFER_UTXO_COINS]]"

text \<open>An output of 4294967295 units and a fee of 1, paid from a free balance of
  4294967296 units.\<close>

definition tx_wide :: CCoinUtxoTx where
  "tx_wide = tx_of 1 [] [unlocked 4294967295]"

definition cw_wide_after :: CCacheWrapper where
  "cw_wide_after =
     cw_of 4294967296 {(5, 0)}
       [5 \<mapsto> [CReceipt (CRegID 1 1) CNullID ''WICC'' 0 TRANSFER_UTXO_COINS]]"

text \<open>An output of 600 units and a fee of 50, with an empty free balance.\<close>

definition tx_short :: CCoinUtxoTx where
  "tx_short = tx_of 50 [] [unlocked 600]"

text \<open>An output of 10 units whose only condition has a kind outside the five known ones.\<close>

definition tx_unknown_kind :: CCoinUtxoTx where
  "tx_unknown_kind = tx_of 1 [] [pay 10 (CUtxoCondOther (OtherCondType 9))]"

lemmas example_defs =
  prior_tx_def env0_def account_of_def cw_of_def tx_of_def spend_def pay_def unlocked_def
  tx_scenario_def tx_outputs_only_def cw_outputs_only_after_def tx_wide_def cw_wide_after_def
  tx_short_def tx_unknown_kind_def

lemmas model_defs =
  CheckTx_def CheckTx_pre_def CheckTx_sizes_def GetAccount_def GetBalance_def DoS_def
  CheckUtxoCondition_def reject_cond_def IsEmpty_def CUtxoInput_default_def copy_cond_def
  GetUtxoTxFromChain_def ExecuteTx_def GetUtxoTx_def SetUtxoTx_def DelUtoxTx_def
  SaveAccount_def SetTxReceipts_def diff_of_def abs_int_def int_to_uint64_def
  adjust_account_def Let_def

section \<open>Properties\<close>

subsection \<open>The condition evaluator\<close>

lemma scan_input_conds_not_True:
  "scan_input_conds e state h uid cs found = Inl ex \<Longrightarrow> ex \<noteq> Returned True state'"
  by (induction cs arbitrary: found)
     (auto simp: reject_cond_def DoS_def Let_def split: if_splits CUtxoCond.splits)

text \<open>
  C7. On the input side of a \<^verbatim>\<open>CLAIM_LOCK\<close> condition the evaluator returns the
  rejection \<^verbatim>\<open>too-early-to-claim-err\<close> exactly when the chain height is at most the lock
  height, so it rejects at a height equal to the lock height. At a greater height, one
  block later for instance, it does not return an acceptance: the case ends at its
  \<^verbatim>\<open>break\<close> and control reaches the closing brace of the function, which returns no
  value.
\<close>

theorem ClaimLock_input_height_gate:
  "CheckUtxoCondition e True height state prevUtxoTxUid uid input (CClaimLockCondOut lockHeight)
     = (if lockHeight < height then FlowsOffEnd state
        else Returned False (Some (REJECT_INVALID, ''too-early-to-claim-err'')))
   \<and> CheckUtxoCondition e True lockHeight state prevUtxoTxUid uid input
         (CClaimLockCondOut lockHeight)
     = Returned False (Some (REJECT_INVALID, ''too-early-to-claim-err''))
   \<and> CheckUtxoCondition e True (lockHeight + 1) state prevUtxoTxUid uid input
         (CClaimLockCondOut lockHeight)
     = FlowsOffEnd state"
  by (simp add: CheckUtxoCondition_def reject_cond_def DoS_def)

text \<open>
  C8. On the input side of a \<^verbatim>\<open>RECLAIM_LOCK\<close> condition the evaluator rejects exactly
  when the spender is the owner of the prior output and the lock height is 0 or not yet
  passed; a different spender is never rejected. The reason of the rejection is
  \<^verbatim>\<open>too-early-to-claim-err\<close>, the reason of the claim lock, and not a reason of its own
  for reclaiming.
\<close>

theorem ReclaimLock_input_reason:
  "CheckUtxoCondition e True height state prevUtxoTxUid uid input (CReClaimLockCondOut lockHeight)
     = (if prevUtxoTxUid = uid \<and> (lockHeight = 0 \<or> height \<le> lockHeight)
        then Returned False (Some (REJECT_INVALID, ''too-early-to-claim-err''))
        else FlowsOffEnd state)
   \<and> CheckUtxoCondition env0 True 5 None (CRegID 1 1) (CRegID 1 1) (spend 3 0)
         (CReClaimLockCondOut 10)
     = CheckUtxoCondition env0 True 5 None (CRegID 1 1) (CRegID 1 1) (spend 3 0)
         (CClaimLockCondOut 10)"
  by (simp add: CheckUtxoCondition_def reject_cond_def DoS_def)

text \<open>
  C10. No path through the evaluator returns \<^verbatim>\<open>true\<close>. Where a condition is met, the
  case leaves the \<^verbatim>\<open>switch\<close> by \<^verbatim>\<open>break\<close> and control reaches the closing brace of
  the function without a \<^verbatim>\<open>return\<close> statement, as for the owner spending from a
  single-address lock.
\<close>

theorem CheckUtxoCondition_no_return_on_accept:
  "CheckUtxoCondition e isCheckInput height state prevUtxoTxUid uid input cond
     \<noteq> Returned True state'
   \<and> CheckUtxoCondition env0 True 10 None (CRegID 2 1) (CRegID 1 1) (spend 3 0)
         (CSingleAddressCondOut (CRegID 1 1))
     = FlowsOffEnd None"
  by (auto simp: CheckUtxoCondition_def reject_cond_def DoS_def
      split: UtxoCondType.splits CUtxoCond.splits sum.splits
      dest: scan_input_conds_not_True)

subsection \<open>Validation\<close>

text \<open>
  C1. The transaction has no input and one output, whose condition has an unknown kind.
  The evaluator rejects the condition with \<^verbatim>\<open>cond-type-err\<close>. \<^verbatim>\<open>CheckTx\<close> does not
  read this result: it goes on and returns \<^verbatim>\<open>true\<close>, with the rejection left in the
  validation state.
\<close>

theorem CheckTx_ignores_condition_rejects:
  "CheckUtxoCondition env0 False 10 None CNullID (CRegID 1 1) CUtxoInput_default
       (copy_cond (CUtxoCondOther (OtherCondType 9)))
     = Returned False (Some (REJECT_INVALID, ''cond-type-err''))
   \<and> CheckTx env0 tx_unknown_kind 10 (cw_of 1000 {} Map.empty) None
     = Return (True, Some (REJECT_INVALID, ''cond-type-err''))"
  by (simp add: model_defs example_defs)

text \<open>
  C4. With the transaction index enabled and no entry for the id, the resolver returns
  \<^verbatim>\<open>true\<close> without having loaded anything. \<^verbatim>\<open>CheckTx\<close> of an input that names the
  unknown id 4 then reads through the null pointer instead of rejecting with
  \<^verbatim>\<open>failed-to-load-prev-utxo-err\<close>.
\<close>

theorem GetUtxoTxFromChain_true_when_not_found:
  "GetUtxoTxFromChain (e\<lparr>IsTxIndex := True, ReadTxIndex := (ReadTxIndex e)(txid := None)\<rparr>)
       txid pTx
     = Inr True
   \<and> GetUtxoTxFromChain env0 4 None = Inr True
   \<and> CheckTx env0 (tx_of 2 [spend 4 0] []) 10 (cw_of 1000 {} Map.empty) None
     = Fault NullPointer"
  by (simp add: model_defs example_defs)

text \<open>
  C9. The size checks of \<^verbatim>\<open>CheckTx\<close>: no inputs and no outputs give
  \<^verbatim>\<open>utxo-empty-err\<close>, more than 100 inputs give \<^verbatim>\<open>vins-size-too-large\<close>, more than
  100 outputs are rejected too (with \<^verbatim>\<open>vouts-size-too-large\<close> when the inputs are within
  the limit), and 1 to 100 inputs with at most 100 outputs, or the other way round, pass.
  A transaction the size checks reject is rejected by \<^verbatim>\<open>CheckTx\<close>, and with the reason
  of the size check once the checks placed before it have passed.
\<close>

theorem CheckTx_size_limits:
  "(length (vins tx) = 0 \<and> length (vouts tx) = 0 \<longrightarrow> CheckTx_sizes tx = Some ''utxo-empty-err'')
   \<and> (100 < length (vins tx) \<longrightarrow> CheckTx_sizes tx = Some ''vins-size-too-large'')
   \<and> (100 < length (vouts tx) \<longrightarrow>
        CheckTx_sizes tx \<noteq> None
        \<and> (length (vins tx) \<le> 100 \<longrightarrow> CheckTx_sizes tx = Some ''vouts-size-too-large''))
   \<and> ((1 \<le> length (vins tx) \<and> length (vins tx) \<le> 100 \<and> length (vouts tx) \<le> 100)
        \<or> (1 \<le> length (vouts tx) \<and> length (vouts tx) \<le> 100 \<and> length (vins tx) \<le> 100)
       \<longrightarrow> CheckTx_sizes tx = None)
   \<and> (CheckTx_sizes tx = Some reason \<longrightarrow>
        (\<exists>state'. CheckTx e tx height cw state = Return (False, state'))
        \<and> (\<forall>srcAccount. CheckTx_pre e tx height cw state = Inr srcAccount \<longrightarrow>
              CheckTx e tx height cw state = Return (False, Some (REJECT_INVALID, reason))))"
proof -
  have pre: "\<And>r. CheckTx_pre e tx height cw state = Inl r \<Longrightarrow> fst r = False"
    by (auto simp: CheckTx_pre_def DoS_def split: option.splits if_splits)
  have "CheckTx_sizes tx = Some reason \<Longrightarrow>
          \<exists>state'. CheckTx e tx height cw state = Return (False, state')"
  proof (cases "CheckTx_pre e tx height cw state")
    case (Inl r)
    assume "CheckTx_sizes tx = Some reason"
    from pre [OF Inl] Inl show ?thesis
      by (cases r) (simp add: CheckTx_def)
  next
    case (Inr srcAccount)
    assume "CheckTx_sizes tx = Some reason"
    with Inr show ?thesis by (simp add: CheckTx_def DoS_def)
  qed
  moreover have "CheckTx_sizes tx = Some reason \<Longrightarrow>
          \<forall>srcAccount. CheckTx_pre e tx height cw state = Inr srcAccount \<longrightarrow>
              CheckTx e tx height cw state = Return (False, Some (REJECT_INVALID, reason))"
    by (simp add: CheckTx_def DoS_def)
  moreover have "length (vins tx) = 0 \<and> length (vouts tx) = 0 \<longrightarrow>
      CheckTx_sizes tx = Some ''utxo-empty-err''"
    by (simp add: CheckTx_sizes_def)
  moreover have "100 < length (vins tx) \<longrightarrow> CheckTx_sizes tx = Some ''vins-size-too-large''"
    by (simp add: CheckTx_sizes_def)
  moreover have "100 < length (vouts tx) \<longrightarrow>
        CheckTx_sizes tx \<noteq> None
        \<and> (length (vins tx) \<le> 100 \<longrightarrow> CheckTx_sizes tx = Some ''vouts-size-too-large'')"
    by (simp add: CheckTx_sizes_def)
  moreover have "(1 \<le> length (vins tx) \<and> length (vins tx) \<le> 100 \<and> length (vouts tx) \<le> 100)
        \<or> (1 \<le> length (vouts tx) \<and> length (vouts tx) \<le> 100 \<and> length (vins tx) \<le> 100)
       \<longrightarrow> CheckTx_sizes tx = None"
    by (auto simp: CheckTx_sizes_def)
  ultimately show ?thesis by blast
qed

theorem CheckTx_size_limits_witness:
  "CheckTx_sizes (tx_of 1 [] []) = Some ''utxo-empty-err''
   \<and> CheckTx env0 (tx_of 1 [] []) 10 (cw_of 1000 {} Map.empty) None
       = Return (False, Some (REJECT_INVALID, ''utxo-empty-err''))
   \<and> CheckTx_sizes (tx_of 1 (replicate 101 (spend 3 0)) []) = Some ''vins-size-too-large''
   \<and> CheckTx_sizes (tx_of 1 [] (replicate 101 (pay 1 (CClaimLockCondOut 9))))
       = Some ''vouts-size-too-large''
   \<and> CheckTx_sizes (tx_of 1 [spend 3 0] []) = None
   \<and> CheckTx_sizes (tx_of 1 [] (replicate 100 (pay 1 (CClaimLockCondOut 9)))) = None"
proof -
  let ?cw = "cw_of 1000 {} Map.empty"
  let ?ins = "tx_of 1 (replicate 101 (spend 3 0)) []"
  let ?outs = "tx_of 1 [] (replicate 101 (pay 1 (CClaimLockCondOut 9)))"
  let ?full = "tx_of 1 [] (replicate 100 (pay 1 (CClaimLockCondOut 9)))"
  have a: "length (vins (tx_of 1 [] [])) = 0 \<and> length (vouts (tx_of 1 [] [])) = 0"
    by (simp add: tx_of_def)
  have b: "100 < length (vins ?ins)"
    by (simp add: tx_of_def)
  have c: "100 < length (vouts ?outs)" and c': "length (vins ?outs) \<le> 100"
    by (simp_all add: tx_of_def)
  have d: "(1 \<le> length (vins (tx_of 1 [spend 3 0] []))
            \<and> length (vins (tx_of 1 [spend 3 0] [])) \<le> 100
            \<and> length (vouts (tx_of 1 [spend 3 0] [])) \<le> 100)
           \<or> (1 \<le> length (vouts (tx_of 1 [spend 3 0] []))
            \<and> length (vouts (tx_of 1 [spend 3 0] [])) \<le> 100
            \<and> length (vins (tx_of 1 [spend 3 0] [])) \<le> 100)"
    by (simp add: tx_of_def)
  have f: "(1 \<le> length (vins ?full) \<and> length (vins ?full) \<le> 100 \<and> length (vouts ?full) \<le> 100)
           \<or> (1 \<le> length (vouts ?full) \<and> length (vouts ?full) \<le> 100
               \<and> length (vins ?full) \<le> 100)"
    by (simp add: tx_of_def)
  have pre: "CheckTx_pre env0 (tx_of 1 [] []) 10 ?cw None = Inr (account_of 1000)"
    by (simp add: CheckTx_pre_def GetAccount_def example_defs)
  note empty = CheckTx_size_limits
    [of "tx_of 1 [] []" "''utxo-empty-err''" env0 10 ?cw None]
  have 1: "CheckTx_sizes (tx_of 1 [] []) = Some ''utxo-empty-err''"
    using empty [THEN conjunct1] a by (rule mp)
  have 2: "CheckTx env0 (tx_of 1 [] []) 10 ?cw None
             = Return (False, Some (REJECT_INVALID, ''utxo-empty-err''))"
    using empty [THEN conjunct2, THEN conjunct2, THEN conjunct2, THEN conjunct2] 1 pre
    by blast
  have 3: "CheckTx_sizes ?ins = Some ''vins-size-too-large''"
    using CheckTx_size_limits [of ?ins "[]" env0 10 ?cw None,
        THEN conjunct2, THEN conjunct1] b
    by (rule mp)
  have 4: "CheckTx_sizes ?outs = Some ''vouts-size-too-large''"
    using CheckTx_size_limits [of ?outs "[]" env0 10 ?cw None,
        THEN conjunct2, THEN conjunct2, THEN conjunct1] c c'
    by blast
  have 5: "CheckTx_sizes (tx_of 1 [spend 3 0] []) = None"
    using CheckTx_size_limits [of "tx_of 1 [spend 3 0] []" "[]" env0 10 ?cw None,
        THEN conjunct2, THEN conjunct2, THEN conjunct2, THEN conjunct1] d
    by (rule mp)
  have 6: "CheckTx_sizes ?full = None"
    using CheckTx_size_limits [of ?full "[]" env0 10 ?cw None,
        THEN conjunct2, THEN conjunct2, THEN conjunct2, THEN conjunct1] f
    by (rule mp)
  from 1 2 3 4 5 6 show ?thesis by blast
qed

subsection \<open>Execution\<close>













text \<open>
  C2. The transaction creates an output of 4294967295 units with a fee of 1 and has no
  input; the free balance of its sender is 4294967296. It passes \<^verbatim>\<open>CheckTx\<close> and
  \<^verbatim>\<open>ExecuteTx\<close>. The difference \<open>0 - 4294967295 - 1\<close> is stored in the 32-bit
  \<^verbatim>\<open>int\<close> as 0, so the free balance is left at 4294967296 and the balance equation of the
  specification does not hold.
\<close>

theorem ExecuteTx_diff_truncated:
  "CheckTx env0 tx_wide 10 (cw_of 4294967296 {} Map.empty) None = Return (True, None)
   \<and> ExecuteTx env0 tx_wide 10 (cw_of 4294967296 {} Map.empty) None
       = Return ((True, None), cw_wide_after)
   \<and> diff_of 0 4294967295 1 = 0
   \<and> spec_free_balance (cw_of 4294967296 {} Map.empty) tx_wide = 4294967296
   \<and> spec_free_balance cw_wide_after tx_wide = 4294967296
   \<and> spec_totalIn env0 tx_wide = 0
   \<and> spec_totalOut tx_wide = 4294967295
   \<and> \<not> spec_balance_equation env0 tx_wide (cw_of 4294967296 {} Map.empty) cw_wide_after"
  by (simp add: model_defs example_defs spec_balance_equation_def spec_totalIn_def
      spec_totalOut_def spec_free_balance_def spec_prior_amount_def)

end
